theory Spec2Isabelle
  imports Main
begin

section \<open>EmailGenie (\<^verbatim>\<open>app2.py\<close>): a shallow embedding\<close>

text \<open>
  The program is one Streamlit script. Streamlit executes the whole script from top to
  bottom on every user interaction; what survives from one execution to the next is
  \<^verbatim>\<open>st.session_state\<close> and the file \<^verbatim>\<open>user_profiles.csv\<close>. The embedding follows that
  shape: the handlers of the script are functions on an explicit world (session state,
  profile file, the messages shown to the user, the outbound calls made), and \<open>run\<close>
  is one execution of the script.

  Whatever lies outside the repository is an input of the model: the values the widgets
  return, the answer of the completion endpoint, the outcome of \<^verbatim>\<open>resend.Emails.send\<close>,
  the environment variables, and the numeric column converters of pandas.
  Titles, headers and the input widgets themselves are layout and are left out; what the
  script tells the user with \<^verbatim>\<open>st.error\<close>, \<^verbatim>\<open>st.warning\<close>, \<^verbatim>\<open>st.info\<close>,
  \<^verbatim>\<open>st.success\<close> and \<^verbatim>\<open>st.write\<close> is kept.
\<close>

subsection \<open>Python values\<close>

text \<open>
  A decoded JSON document or any other Python object the script handles. A dictionary is
  an association list in which the first binding of a key counts. \<open>PFloat\<close> carries the
  literal of a float and \<open>PObj\<close> the name of an object of any other class; the script never
  computes with either.
\<close>

datatype pyval =
    PNone
  | PBool bool
  | PInt int
  | PFloat string
  | PStr string
  | PList "pyval list"
  | PDict "(string \<times> pyval) list"
  | PObj string

datatype exn =
    KeyError
  | IndexError
  | TypeError
  | JSONDecodeError
  | ParserError
  | FileNotFoundError
  | RequestException string

text \<open>
  How an execution of the script ends early: \<^verbatim>\<open>st.stop()\<close>, an exception nobody catches, or
  \<^verbatim>\<open>st.rerun()\<close>.
\<close>

datatype halt = Stopped | Raised exn | Rerun

text \<open>\<^verbatim>\<open>v[key]\<close> for a string key.\<close>

fun getitem_key :: "pyval \<Rightarrow> string \<Rightarrow> exn + pyval" where
  "getitem_key (PDict kvs) k = (case map_of kvs k of None \<Rightarrow> Inl KeyError | Some v \<Rightarrow> Inr v)"
| "getitem_key _ k = Inl TypeError"

text \<open>
  \<^verbatim>\<open>v[0]\<close>. The keys of a decoded JSON object are strings, so \<^verbatim>\<open>0\<close> is never among them.
\<close>

fun getitem_0 :: "pyval \<Rightarrow> exn + pyval" where
  "getitem_0 (PList []) = Inl IndexError"
| "getitem_0 (PList (v # vs)) = Inr v"
| "getitem_0 (PStr []) = Inl IndexError"
| "getitem_0 (PStr (c # cs)) = Inr (PStr [c])"
| "getitem_0 (PDict kvs) = Inl KeyError"
| "getitem_0 _ = Inl TypeError"

text \<open>The truth value of what \<^verbatim>\<open>os.getenv\<close> returns: \<^verbatim>\<open>None\<close> and \<^verbatim>\<open>""\<close> are false.\<close>

fun truthy :: "string option \<Rightarrow> bool" where
  "truthy None = False"
| "truthy (Some s) = (s \<noteq> [])"

subsection \<open>Messages shown to the user\<close>

text \<open>
  An f-string is kept as its pieces: the literal text and the interpolated values.
\<close>

datatype piece = Lit string | Val pyval

datatype ui =
    Error "piece list"
  | Warning "piece list"
  | Info "piece list"
  | Success "piece list"
  | Subheader string
  | Text_area string pyval
  | Write "piece list"

fun is_error :: "ui \<Rightarrow> bool" where
  "is_error (Error _) = True"
| "is_error _ = False"

fun is_success :: "ui \<Rightarrow> bool" where
  "is_success (Success _) = True"
| "is_success _ = False"

subsection \<open>Conversation state and outbound calls\<close>

record message =
  role :: string
  content :: pyval

record llm_request =
  model :: string
  request_messages :: "message list"

record http_response =
  status_code :: int
  json :: "pyval option"

text \<open>The parameters handed to \<^verbatim>\<open>resend.Emails.send\<close>.\<close>

record send_params =
  sp_from :: string
  sp_to :: "string list"
  sp_subject :: string
  sp_html :: pyval

datatype netcall = LlmPost llm_request | EmailSend send_params

subsection \<open>The profile table\<close>

text \<open>
  A cell of the data frame \<^verbatim>\<open>read_csv\<close> returns: the missing value, a string, or a value
  of a numeric or boolean column. The type \<open>'n\<close> of the latter is a parameter, as is the
  converter that produces them.
\<close>

datatype 'n cell = NaN | Str string | Num 'n

record 'n dataframe =
  columns :: "string list"
  rows :: "'n cell list list"

record 'n session =
  messages :: "message list"
  email_generated :: bool
  profile :: "(string \<times> 'n cell) list"

record 'n world =
  session :: "'n session"
  store :: "string option"
  shown :: "ui list"
  net :: "netcall list"

definition say :: "ui \<Rightarrow> 'n world \<Rightarrow> 'n world" where
  "say u w = w\<lparr>shown := shown w @ [u]\<rparr>"

definition call :: "netcall \<Rightarrow> 'n world \<Rightarrow> 'n world" where
  "call c w = w\<lparr>net := net w @ [c]\<rparr>"

subsection \<open>The environment\<close>

record 'n env =
  dotenv_installed :: bool
  resend_installed :: bool
  groq_api_key :: "string option"
  resend_api_key :: "string option"
  llm_post :: "llm_request \<Rightarrow> string + http_response"
  resend_send :: "send_params \<Rightarrow> string + pyval"
  dtype_infer :: "string list \<Rightarrow> 'n list option"

subsection \<open>Session state initialization (lines 47-55)\<close>

definition system_prompt :: string where
  "system_prompt =
     ''You are an AI assistant generating personalized emails. '' @
     ''Use the provided information to create customized email content.''"

definition system_message :: message where
  "system_message = \<lparr>role = ''system'', content = PStr system_prompt\<rparr>"

definition initial_session :: "'n session" where
  "initial_session = \<lparr>messages = [system_message], email_generated = False, profile = []\<rparr>"

subsection \<open>\<^verbatim>\<open>get_llm_response\<close> (lines 58-65)\<close>

text \<open>
  \<^verbatim>\<open>response.json()["choices"][0]["message"]["content"]\<close>: each step can raise.
\<close>

definition response_content :: "http_response \<Rightarrow> exn + pyval" where
  "response_content r =
     (case json r of
        None \<Rightarrow> Inl JSONDecodeError
      | Some j \<Rightarrow>
          (case getitem_key j ''choices'' of
             Inl e \<Rightarrow> Inl e
           | Inr cs \<Rightarrow>
               (case getitem_0 cs of
                  Inl e \<Rightarrow> Inl e
                | Inr c \<Rightarrow>
                    (case getitem_key c ''message'' of
                       Inl e \<Rightarrow> Inl e
                     | Inr m \<Rightarrow> getitem_key m ''content''))))"

definition get_llm_response ::
    "'n env \<Rightarrow> message list \<Rightarrow> 'n world \<Rightarrow> (halt + pyval) \<times> 'n world" where
  "get_llm_response env msgs w =
     (let body = \<lparr>model = ''llama3-8b-8192'', request_messages = msgs\<rparr>;
          w1 = call (LlmPost body) w
      in case llm_post env body of
           Inl e \<Rightarrow> (Inl (Raised (RequestException e)), w1)
         | Inr response \<Rightarrow>
             if status_code response = 200 then
               (case response_content response of
                  Inl e \<Rightarrow> (Inl (Raised e), w1)
                | Inr c \<Rightarrow> (Inr c, w1))
             else
               (Inl Stopped,
                say (Error [Lit ''API request failed with status code '',
                            Val (PInt (status_code response))]) w1))"

subsection \<open>\<^verbatim>\<open>send_email\<close> (lines 68-84)\<close>

definition send_email ::
    "'n env \<Rightarrow> string \<Rightarrow> pyval \<Rightarrow> string \<Rightarrow> 'n world \<Rightarrow> pyval \<times> 'n world" where
  "send_email env subject body recipient_email w =
     (if \<not> resend_installed env \<or> \<not> truthy (resend_api_key env) then
        (PNone,
         say (Error [Lit ''Email sending is not available. Please install Resend and set the API key.'']) w)
      else
        (let params = \<lparr>sp_from = ''onboarding@resend.dev'', sp_to = [recipient_email],
                       sp_subject = subject, sp_html = body\<rparr>;
             w1 = call (EmailSend params) w
         in case resend_send env params of
              Inr email \<Rightarrow> (email, w1)
            | Inl e \<Rightarrow>
                (PNone, say (Error [Lit ''Failed to send email: '', Val (PStr e)]) w1)))"

subsection \<open>\<^verbatim>\<open>save_profile\<close> (lines 87-89)\<close>

text \<open>
  \<^verbatim>\<open>DataFrame.to_csv\<close> with the default dialect: a field that contains the delimiter, the
  quote character or a line break is written between quotes with its quotes doubled, the
  fields of a row are joined by commas, and the row ends with a line feed.
\<close>

definition LF :: char where "LF = CHR 0x0A"
definition CR :: char where "CR = CHR 0x0D"
definition QUOTE :: char where "QUOTE = CHR 0x22"
definition COMMA :: char where "COMMA = CHR '',''"

definition needs_quotes :: "string \<Rightarrow> bool" where
  "needs_quotes f = list_ex (\<lambda>c. c = COMMA \<or> c = QUOTE \<or> c = LF \<or> c = CR) f"

definition double_quotes :: "string \<Rightarrow> string" where
  "double_quotes f = concat (map (\<lambda>c. if c = QUOTE then [c, c] else [c]) f)"

definition csv_field :: "string \<Rightarrow> string" where
  "csv_field f = (if needs_quotes f then [QUOTE] @ double_quotes f @ [QUOTE] else f)"

fun join_fields :: "string list \<Rightarrow> string" where
  "join_fields [] = []"
| "join_fields [f] = f"
| "join_fields (f # g # fs) = f @ [COMMA] @ join_fields (g # fs)"

definition to_csv :: "string list \<Rightarrow> string" where
  "to_csv fs = join_fields (map csv_field fs) @ [LF]"

text \<open>
  A profile as the form builds it (line 124): the four strings of the keys \<^verbatim>\<open>Name\<close>,
  \<^verbatim>\<open>Industry\<close>, \<^verbatim>\<open>Company\<close> and \<^verbatim>\<open>Target Audience\<close>, in this order.
\<close>

record form_profile =
  p_name :: string
  p_industry :: string
  p_company :: string
  p_audience :: string

definition profile_fields :: "form_profile \<Rightarrow> string list" where
  "profile_fields p = [p_name p, p_industry p, p_company p, p_audience p]"

definition profile_columns :: "string list" where
  "profile_columns = [''Name'', ''Industry'', ''Company'', ''Target Audience'']"

definition profile_dict :: "form_profile \<Rightarrow> (string \<times> 'n cell) list" where
  "profile_dict p = zip profile_columns (map Str (profile_fields p))"

text \<open>Mode \<^verbatim>\<open>'a'\<close>: the row is appended; a missing file is created.\<close>

definition save_profile :: "form_profile \<Rightarrow> 'n world \<Rightarrow> 'n world" where
  "save_profile p w =
     w\<lparr>store := Some ((case store w of None \<Rightarrow> [] | Some old \<Rightarrow> old) @ to_csv (profile_fields p))\<rparr>"

subsection \<open>\<^verbatim>\<open>pandas.read_csv\<close>\<close>

text \<open>
  The tokenizer of pandas' default (C) parser, for the default dialect: comma, double
  quote with doubled quotes inside a quoted field, the line ends LF, CR and CR LF, and
  blank or whitespace-only lines skipped. A quote opens a quoted field only as the first
  character of a field.
\<close>

datatype tstate =
    START_RECORD
  | START_FIELD
  | IN_FIELD
  | IN_QUOTED_FIELD
  | QUOTE_IN_QUOTED_FIELD
  | EAT_CRNL
  | EAT_CRNL_NOP
  | WHITESPACE_LINE

record tok =
  tstate :: tstate
  field :: string
  line :: "string list"
  lines :: "string list list"

definition push_char :: "char \<Rightarrow> tok \<Rightarrow> tok" where
  "push_char c t = t\<lparr>field := field t @ [c]\<rparr>"

definition end_field :: "tok \<Rightarrow> tok" where
  "end_field t = t\<lparr>field := [], line := line t @ [field t]\<rparr>"

definition end_line :: "tok \<Rightarrow> tok" where
  "end_line t = t\<lparr>tstate := START_RECORD, field := [], line := [], lines := lines t @ [line t]\<rparr>"

definition is_whitespace :: "char \<Rightarrow> bool" where
  "is_whitespace c = (c = CHR '' '' \<or> c = CHR 0x09)"

definition in_field :: "char \<Rightarrow> tok \<Rightarrow> tok" where
  "in_field c t =
     (if c = LF then end_line (end_field t)
      else if c = CR then (end_field t)\<lparr>tstate := EAT_CRNL\<rparr>
      else if c = COMMA then (end_field t)\<lparr>tstate := START_FIELD\<rparr>
      else (push_char c t)\<lparr>tstate := IN_FIELD\<rparr>)"

definition start_field :: "char \<Rightarrow> tok \<Rightarrow> tok" where
  "start_field c t =
     (if c = LF then end_line (end_field t)
      else if c = CR then (end_field t)\<lparr>tstate := EAT_CRNL\<rparr>
      else if c = QUOTE then t\<lparr>tstate := IN_QUOTED_FIELD\<rparr>
      else if c = COMMA then (end_field t)\<lparr>tstate := START_FIELD\<rparr>
      else (push_char c t)\<lparr>tstate := IN_FIELD\<rparr>)"

definition start_record :: "char \<Rightarrow> tok \<Rightarrow> tok" where
  "start_record c t =
     (if c = LF then t\<lparr>tstate := START_RECORD\<rparr>
      else if c = CR then t\<lparr>tstate := EAT_CRNL_NOP\<rparr>
      else if is_whitespace c then (push_char c t)\<lparr>tstate := WHITESPACE_LINE\<rparr>
      else start_field c t)"

definition tok_step :: "tok \<Rightarrow> char \<Rightarrow> tok" where
  "tok_step t c =
     (case tstate t of
        START_RECORD \<Rightarrow> start_record c t
      | START_FIELD \<Rightarrow> start_field c t
      | IN_FIELD \<Rightarrow> in_field c t
      | IN_QUOTED_FIELD \<Rightarrow>
          (if c = QUOTE then t\<lparr>tstate := QUOTE_IN_QUOTED_FIELD\<rparr> else push_char c t)
      | QUOTE_IN_QUOTED_FIELD \<Rightarrow>
          (if c = QUOTE then (push_char c t)\<lparr>tstate := IN_QUOTED_FIELD\<rparr> else in_field c t)
      | EAT_CRNL \<Rightarrow> (if c = LF then end_line t else start_record c (end_line t))
      | EAT_CRNL_NOP \<Rightarrow> (if c = LF then t\<lparr>tstate := START_RECORD\<rparr> else start_record c t)
      | WHITESPACE_LINE \<Rightarrow>
          (if c = LF then t\<lparr>tstate := START_RECORD, field := []\<rparr>
           else if c = CR then t\<lparr>tstate := EAT_CRNL_NOP, field := []\<rparr>
           else if is_whitespace c then push_char c t
           else in_field c t))"

text \<open>End of the input: an open quoted field is an error, an open record is closed.\<close>

definition handle_eof :: "tok \<Rightarrow> exn + string list list" where
  "handle_eof t =
     (case tstate t of
        START_RECORD \<Rightarrow> Inr (lines t)
      | WHITESPACE_LINE \<Rightarrow> Inr (lines t)
      | EAT_CRNL_NOP \<Rightarrow> Inr (lines t)
      | IN_QUOTED_FIELD \<Rightarrow> Inl ParserError
      | IN_FIELD \<Rightarrow> Inr (lines (end_line (end_field t)))
      | START_FIELD \<Rightarrow> Inr (lines (end_line (end_field t)))
      | QUOTE_IN_QUOTED_FIELD \<Rightarrow> Inr (lines (end_line (end_field t)))
      | EAT_CRNL \<Rightarrow> Inr (lines (end_line t)))"

definition tokenize :: "string \<Rightarrow> exn + string list list" where
  "tokenize s =
     handle_eof (foldl tok_step \<lparr>tstate = START_RECORD, field = [], line = [], lines = []\<rparr> s)"

text \<open>
  The strings \<^verbatim>\<open>read_csv\<close> reads as the missing value by default, the empty field among
  them.
\<close>

definition na_values :: "string list" where
  "na_values =
     ['''', ''#N/A'', ''#N/A N/A'', ''#NA'', ''-1.#IND'', ''-1.#QNAN'', ''-NaN'', ''-nan'',
      ''1.#IND'', ''1.#QNAN'', ''<NA>'', ''N/A'', ''NA'', ''NULL'', ''NaN'', ''None'',
      ''n/a'', ''nan'', ''null'']"

definition is_na :: "string \<Rightarrow> bool" where
  "is_na t = (t \<in> set na_values)"

text \<open>
  The values of a converted column: the missing value where the field is one of
  \<open>na_values\<close>, the converted values elsewhere.
\<close>

fun fill :: "string list \<Rightarrow> 'n list \<Rightarrow> 'n cell list" where
  "fill [] vs = []"
| "fill (t # ts) vs =
     (if is_na t then NaN # fill ts vs
      else (case vs of [] \<Rightarrow> Str t # fill ts [] | v # vs' \<Rightarrow> Num v # fill ts vs'))"

text \<open>
  A column whose fields, the missing ones apart, all are numbers or all are booleans gets
  a numeric or boolean type. That decision and the conversion are pandas' own: \<open>infer\<close>
  is given the fields that are not missing and returns their values, or \<open>None\<close> for a
  column of strings.
\<close>

definition convert_column :: "(string list \<Rightarrow> 'n list option) \<Rightarrow> string list \<Rightarrow> 'n cell list" where
  "convert_column infer ts =
     (let live = filter (\<lambda>t. \<not> is_na t) ts
      in case (if live = [] then None else infer live) of
           None \<Rightarrow> map (\<lambda>t. if is_na t then NaN else Str t) ts
         | Some vs \<Rightarrow> fill ts vs)"

definition pad :: "nat \<Rightarrow> string list \<Rightarrow> string list" where
  "pad n r = r @ replicate (n - length r) []"

text \<open>
  \<^verbatim>\<open>read_csv(file, names=names)\<close>: no header line; a record shorter than \<open>names\<close> is
  completed with missing values. \<open>save_profile\<close> only ever writes rows of four fields.
  A longer record can only come from outside the program; pandas rejects it, unless it is
  the first record, whose surplus leading fields it takes as the index. The model reports
  \<open>ParserError\<close> in both cases.
\<close>

definition read_csv ::
    "(string list \<Rightarrow> 'n list option) \<Rightarrow> string list \<Rightarrow> string option \<Rightarrow> exn + 'n dataframe" where
  "read_csv infer names file =
     (case file of
        None \<Rightarrow> Inl FileNotFoundError
      | Some s \<Rightarrow>
          (case tokenize s of
             Inl e \<Rightarrow> Inl e
           | Inr recs \<Rightarrow>
               if list_ex (\<lambda>r. length names < length r) recs then Inl ParserError
               else Inr \<lparr>columns = names,
                         rows = transpose (map (convert_column infer)
                                  (transpose (map (pad (length names)) recs)))\<rparr>))"

subsection \<open>\<^verbatim>\<open>load_profiles\<close> (lines 91-95)\<close>

definition load_profiles :: "'n env \<Rightarrow> 'n world \<Rightarrow> exn + 'n dataframe" where
  "load_profiles env w =
     (case read_csv (dtype_infer env) profile_columns (store w) of
        Inl FileNotFoundError \<Rightarrow> Inr \<lparr>columns = profile_columns, rows = []\<rparr>
      | Inl e \<Rightarrow> Inl e
      | Inr df \<Rightarrow> Inr df)"

subsection \<open>What the user enters\<close>

datatype choice = Load_Existing_Profile | Create_New_Profile

datatype button = Save_Profile | Generate_Email | Send_Email | Start_Over

datatype tone = Formal | Neutral | Friendly

datatype length_opt = Short | Medium | Long

fun tone_str :: "tone \<Rightarrow> string" where
  "tone_str Formal = ''Formal''"
| "tone_str Neutral = ''Neutral''"
| "tone_str Friendly = ''Friendly''"

fun length_str :: "length_opt \<Rightarrow> string" where
  "length_str Short = ''Short''"
| "length_str Medium = ''Medium''"
| "length_str Long = ''Long''"

text \<open>
  The values the widgets return in one execution of the script. A click makes exactly one
  button return \<^verbatim>\<open>True\<close> in the execution it triggers; \<open>selected_index\<close> is the position
  the user picked in the select box.
\<close>

record inputs =
  profile_choice :: choice
  selected_index :: nat
  name :: string
  industry :: string
  company :: string
  audience :: string
  recipient_name :: string
  recipient_email :: string
  email_purpose :: string
  tone :: tone
  length_opt :: length_opt
  key_points :: string
  email_subject :: string
  clicked :: "button option"

subsection \<open>Step 1: the profile (lines 103-127)\<close>

fun index_of :: "string \<Rightarrow> string list \<Rightarrow> nat option" where
  "index_of k [] = None"
| "index_of k (c # cs) = (if k = c then Some 0 else map_option Suc (index_of k cs))"

text \<open>A row that is shorter than the header reads as missing there.\<close>

definition cell_at :: "'n cell list \<Rightarrow> nat \<Rightarrow> 'n cell" where
  "cell_at r j = (if j < length r then r ! j else NaN)"

text \<open>\<^verbatim>\<open>df[key]\<close>\<close>

definition column :: "'n dataframe \<Rightarrow> string \<Rightarrow> exn + 'n cell list" where
  "column df k =
     (case index_of k (columns df) of
        None \<Rightarrow> Inl KeyError
      | Some j \<Rightarrow> Inr (map (\<lambda>r. cell_at r j) (rows df)))"

text \<open>
  \<^verbatim>\<open>st.selectbox\<close> returns the chosen option, the first one when nothing valid is chosen,
  and \<^verbatim>\<open>None\<close> when there are no options.
\<close>

definition selectbox :: "'a list \<Rightarrow> nat \<Rightarrow> 'a option" where
  "selectbox options i =
     (if options = [] then None
      else Some (options ! (if i < length options then i else 0)))"

text \<open>Elementwise \<^verbatim>\<open>==\<close>: the missing value equals nothing, itself included.\<close>

fun cell_eq :: "'n cell \<Rightarrow> 'n cell option \<Rightarrow> bool" where
  "cell_eq (Str a) (Some (Str b)) = (a = b)"
| "cell_eq (Num a) (Some (Num b)) = (a = b)"
| "cell_eq _ _ = False"

text \<open>\<^verbatim>\<open>df[mask]\<close>: the rows whose mask entry is true, in the order of the table.\<close>

definition select_rows :: "'n dataframe \<Rightarrow> bool list \<Rightarrow> 'n cell list list" where
  "select_rows df keep = map fst (filter snd (zip (rows df) keep))"

text \<open>Lines 108-110, for a table that is not empty.\<close>

definition load_existing_profile ::
    "'n dataframe \<Rightarrow> nat \<Rightarrow> exn + (string \<times> 'n cell) list" where
  "load_existing_profile profiles i =
     (case column profiles ''Name'' of
        Inl e \<Rightarrow> Inl e
      | Inr names \<Rightarrow>
          (let selected_profile = selectbox names i
           in case select_rows profiles (map (\<lambda>v. cell_eq v selected_profile) names) of
                [] \<Rightarrow> Inl IndexError
              | r # _ \<Rightarrow> Inr (zip (columns profiles) r)))"

definition set_profile :: "(string \<times> 'n cell) list \<Rightarrow> 'n world \<Rightarrow> 'n world" where
  "set_profile d w = w\<lparr>session := (session w)\<lparr>profile := d\<rparr>\<rparr>"

definition choose_profile :: "'n env \<Rightarrow> inputs \<Rightarrow> 'n world \<Rightarrow> halt option \<times> 'n world" where
  "choose_profile env inp w =
     (case profile_choice inp of
        Create_New_Profile \<Rightarrow> (None, set_profile [] w)
      | Load_Existing_Profile \<Rightarrow>
          (case load_profiles env w of
             Inl e \<Rightarrow> (Some (Raised e), w)
           | Inr profiles \<Rightarrow>
               if rows profiles \<noteq> [] then
                 (case load_existing_profile profiles (selected_index inp) of
                    Inl e \<Rightarrow> (Some (Raised e), w)
                  | Inr d \<Rightarrow> (None, set_profile d w))
               else
                 (None,
                  set_profile []
                    (say (Warning [Lit ''No existing profiles found. Please create a new profile.'']) w))))"

definition form_of :: "inputs \<Rightarrow> form_profile" where
  "form_of inp =
     \<lparr>p_name = name inp, p_industry = industry inp, p_company = company inp,
      p_audience = audience inp\<rparr>"

definition on_save :: "inputs \<Rightarrow> 'n world \<Rightarrow> halt option \<times> 'n world" where
  "on_save inp w =
     (if clicked inp = Some Save_Profile then
        (None,
         say (Success [Lit ''Profile saved successfully!''])
           (set_profile (profile_dict (form_of inp)) (save_profile (form_of inp) w)))
      else (None, w))"

subsection \<open>Step 3: Generate Email (lines 140-161)\<close>

definition prompt :: "inputs \<Rightarrow> string" where
  "prompt inp =
     [LF] @
     ''    Generate a personalized email based on the following information:'' @ [LF] @
     ''    - Sender: '' @ name inp @ '' from '' @ company inp @ '' in the '' @ industry inp @
       '' industry'' @ [LF] @
     ''    - Recipient: '' @ recipient_name inp @ [LF] @
     ''    - Purpose: '' @ email_purpose inp @ [LF] @
     ''    - Tone: '' @ tone_str (tone inp) @ [LF] @
     ''    - Length: '' @ length_str (length_opt inp) @ [LF] @
     ''    - Key Points: '' @ key_points inp @ [LF] @
     ''    - Target Audience: '' @ audience inp @ [LF] @
     [LF] @
     ''    Please create an email that addresses the recipient by name, clearly states the purpose,'' @ [LF] @
     ''    maintains the specified tone and length, and incorporates the key points provided. '' @
     ''And do not include any AI or AI generated text like '' @
     ''(Here is a personalized email that addresses your needs ) nothing like that. '' @
     ''and also do not include any placeholder text. '' @
     ''and do not repeat the subject line in the email body.'' @ [LF] @
     ''    ''"

definition append_message :: "message \<Rightarrow> 'n world \<Rightarrow> 'n world" where
  "append_message m w = w\<lparr>session := (session w)\<lparr>messages := messages (session w) @ [m]\<rparr>\<rparr>"

definition on_generate :: "'n env \<Rightarrow> inputs \<Rightarrow> 'n world \<Rightarrow> halt option \<times> 'n world" where
  "on_generate env inp w =
     (if clicked inp = Some Generate_Email then
        (let w1 = append_message \<lparr>role = ''user'', content = PStr (prompt inp)\<rparr> w
         in case get_llm_response env (messages (session w1)) w1 of
              (Inl h, w2) \<Rightarrow> (Some h, w2)
            | (Inr response, w2) \<Rightarrow>
                (let w3 = append_message \<lparr>role = ''assistant'', content = response\<rparr> w2;
                     w4 = w3\<lparr>session := (session w3)\<lparr>email_generated := True\<rparr>\<rparr>
                 in (None,
                     say (Text_area ''Email Content'' response)
                       (say (Subheader ''Generated Email:'') w4))))
      else (None, w))"

subsection \<open>Step 4: Send Email (lines 164-180)\<close>

definition fixed_recipient :: string where
  "fixed_recipient = ''spam.vanshjain@gmail.com''"

text \<open>
  Lines 173-178: what the user is told about the result of \<^verbatim>\<open>send_email\<close>. The test of
  line 175 is \<open>has_id\<close>: the result is a dictionary and has the key \<^verbatim>\<open>id\<close>.
\<close>

fun has_id :: "pyval \<Rightarrow> bool" where
  "has_id (PDict kvs) = (map_of kvs ''id'' \<noteq> None)"
| "has_id _ = False"

fun report_result :: "pyval \<Rightarrow> ui" where
  "report_result PNone = Error [Lit ''Failed to send email: email_result is None.'']"
| "report_result (PDict kvs) =
     (case map_of kvs ''id'' of
        Some i \<Rightarrow> Success [Lit ''Email sent successfully! Email ID: '', Val i]
      | None \<Rightarrow>
          Error [Lit ''Failed to send email: email_result does not have an 'id'. Received: '',
                 Val (PDict kvs)])"
| "report_result v =
     Error [Lit ''Failed to send email: email_result does not have an 'id'. Received: '', Val v]"

definition on_send :: "'n env \<Rightarrow> inputs \<Rightarrow> 'n world \<Rightarrow> halt option \<times> 'n world" where
  "on_send env inp w =
     (if email_generated (session w) \<and> clicked inp = Some Send_Email then
        (if resend_installed env \<and> truthy (resend_api_key env) then
           (case rev (messages (session w)) of
              [] \<Rightarrow> (Some (Raised IndexError), w)
            | m # _ \<Rightarrow>
                (case send_email env (email_subject inp) (content m) fixed_recipient w of
                   (email_result, w1) \<Rightarrow> (None, say (report_result email_result) w1)))
         else
           (None,
            say (Error [Lit ''Email sending is not available. Please install Resend and set the API key.'']) w))
      else (None, w))"

subsection \<open>Conversation history and Start Over (lines 183-200)\<close>

definition history_line :: "message \<Rightarrow> ui list" where
  "history_line m =
     (if role m = ''assistant'' then [Write [Lit ''**AI:** '', Val (content m)]]
      else if role m = ''user'' then [Write [Lit ''**You:** '', Val (content m)]]
      else [])"

definition history :: "'n world \<Rightarrow> halt option \<times> 'n world" where
  "history w = (None, w\<lparr>shown := shown w @ concat (map history_line (drop 1 (messages (session w))))\<rparr>)"

definition on_start_over :: "inputs \<Rightarrow> 'n world \<Rightarrow> halt option \<times> 'n world" where
  "on_start_over inp w =
     (if clicked inp = Some Start_Over then (Some Rerun, w\<lparr>session := initial_session\<rparr>)
      else (None, w))"

subsection \<open>One execution of the script\<close>

text \<open>Statements run in order until one of them ends the execution.\<close>

definition seq ::
    "('w \<Rightarrow> halt option \<times> 'w) \<Rightarrow> ('w \<Rightarrow> halt option \<times> 'w) \<Rightarrow> 'w \<Rightarrow> halt option \<times> 'w" where
  "seq f g w = (case f w of (None, w') \<Rightarrow> g w' | (Some h, w') \<Rightarrow> (Some h, w'))"

definition script :: "'n env \<Rightarrow> inputs \<Rightarrow> 'n world \<Rightarrow> halt option \<times> 'n world" where
  "script env inp =
     seq (choose_profile env inp)
       (seq (on_save inp)
          (seq (on_generate env inp)
             (seq (on_send env inp)
                (seq history (on_start_over inp)))))"

text \<open>Lines 7-37: the messages about missing libraries and keys.\<close>

definition startup_messages :: "'n env \<Rightarrow> ui list" where
  "startup_messages env =
     (if dotenv_installed env then []
      else [Error [Lit (''python-dotenv library is not installed. Please install it using 'pip install python-dotenv'' @ [CHR 0x27])]]) @
     (if resend_installed env then []
      else [Error [Lit (''Resend library is not installed. Please install it using 'pip install resend'' @ [CHR 0x27])],
            Info [Lit ''You can still use the email generator, but sending emails will be disabled.'']])"

text \<open>
  What lasts between executions: the session state, absent before the first execution
  that reaches line 47, and the profile file, absent until the first save.
\<close>

record 'n app =
  session_state :: "'n session option"
  profile_file :: "string option"

record 'n outcome =
  halted :: "halt option"
  app :: "'n app"
  out :: "ui list"
  calls :: "netcall list"

text \<open>
  Lines 36-55: the warning about the missing email key, and the session state, created
  when the session has none yet.
\<close>

definition boot :: "'n env \<Rightarrow> 'n app \<Rightarrow> 'n world" where
  "boot env a =
     \<lparr>session = (case session_state a of None \<Rightarrow> initial_session | Some s \<Rightarrow> s),
      store = profile_file a,
      shown = startup_messages env @
        (if resend_installed env \<and> \<not> truthy (resend_api_key env)
         then [Warning [Lit ''RESEND_API_KEY is not set in the .env file. Email sending will be disabled.'']]
         else []),
      net = []\<rparr>"

definition run :: "'n env \<Rightarrow> inputs \<Rightarrow> 'n app \<Rightarrow> 'n outcome" where
  "run env inp a =
     (if \<not> dotenv_installed env then
        \<lparr>halted = Some Stopped, app = a, out = startup_messages env, calls = []\<rparr>
      else if \<not> truthy (groq_api_key env) then
        \<lparr>halted = Some Stopped, app = a,
         out = startup_messages env @ [Error [Lit ''GROQ_API_KEY is not set in the .env file'']],
         calls = []\<rparr>
      else
        (case script env inp (boot env a) of
           (h, w) \<Rightarrow>
             \<lparr>halted = h, app = \<lparr>session_state = Some (session w), profile_file = store w\<rparr>,
              out = shown w, calls = net w\<rparr>))"

text \<open>The states the application can be in: before the first execution, and after any.\<close>

inductive reachable :: "'n app \<Rightarrow> bool" where
  start: "reachable \<lparr>session_state = None, profile_file = f\<rparr>"
| step: "reachable a \<Longrightarrow> reachable (app (run env inp a))"

subsection \<open>Sample data\<close>

definition hello_body :: pyval where
  "hello_body =
     PDict [(''choices'', PList [PDict [(''message'', PDict [(''content'', PStr ''Hello'')])]])]"

definition two_choice_body :: pyval where
  "two_choice_body =
     PDict [(''id'', PStr ''cmpl-1''),
            (''choices'',
             PList [PDict [(''index'', PInt 0),
                           (''message'', PDict [(''role'', PStr ''assistant''),
                                                (''content'', PStr ''First'')])],
                    PDict [(''index'', PInt 1),
                           (''message'', PDict [(''role'', PStr ''assistant''),
                                                (''content'', PStr ''Second'')])]])]"

definition sample_env :: "http_response \<Rightarrow> string + pyval \<Rightarrow> unit env" where
  "sample_env r s =
     \<lparr>dotenv_installed = True, resend_installed = True, groq_api_key = Some ''gsk'',
      resend_api_key = Some ''re'', llm_post = (\<lambda>_. Inr r), resend_send = (\<lambda>_. s),
      dtype_infer = (\<lambda>_. None)\<rparr>"

definition sample_inputs :: inputs where
  "sample_inputs =
     \<lparr>profile_choice = Create_New_Profile, selected_index = 0, name = ''Ann'',
      industry = ''Tech'', company = [], audience = ''x'', recipient_name = ''Bob'',
      recipient_email = ''bob@example.com'', email_purpose = ''Hello'', tone = Neutral,
      length_opt = Medium, key_points = ''k'', email_subject = ''Hello - Bob'',
      clicked = None\<rparr>"

definition fresh_world :: "unit world" where
  "fresh_world = \<lparr>session = initial_session, store = None, shown = [], net = []\<rparr>"

definition generated_session :: "unit session" where
  "generated_session =
     \<lparr>messages = [system_message,
                  \<lparr>role = ''user'', content = PStr (prompt sample_inputs)\<rparr>,
                  \<lparr>role = ''assistant'', content = PStr ''Hello''\<rparr>],
      email_generated = True, profile = []\<rparr>"

definition generated_world :: "unit world" where
  "generated_world = \<lparr>session = generated_session, store = None, shown = [], net = []\<rparr>"

definition ann_profile :: form_profile where
  "ann_profile = \<lparr>p_name = ''Ann'', p_industry = ''Tech'', p_company = [], p_audience = ''x''\<rparr>"

definition nameless_profile :: form_profile where
  "nameless_profile =
     \<lparr>p_name = [], p_industry = ''Tech'', p_company = ''Acme'', p_audience = ''x''\<rparr>"

definition quoting_profile :: form_profile where
  "quoting_profile =
     \<lparr>p_name = ''Ann '' @ [QUOTE] @ ''A'' @ [QUOTE] @ '', Jr.'', p_industry = ''Tech'',
      p_company = ''Acme, Inc.'', p_audience = ''line one'' @ [LF] @ ''line two''\<rparr>"

text \<open>The content of a profile file that received the profiles \<open>ps\<close>, in this order.\<close>

definition stored :: "form_profile list \<Rightarrow> string" where
  "stored ps = concat (map (\<lambda>p. to_csv (profile_fields p)) ps)"

text \<open>
  A field that comes back from the file as the string it is: it is not one of the missing
  value markers, and pandas gives no numeric or boolean type to a column that holds it.
\<close>

definition reads_as_text :: "(string list \<Rightarrow> 'n list option) \<Rightarrow> string \<Rightarrow> bool" where
  "reads_as_text infer f = (\<not> is_na f \<and> (\<forall>ts. f \<in> set ts \<longrightarrow> infer ts = None))"

text \<open>A character that \<open>to_csv\<close> writes as it is, without quotes.\<close>

definition plain :: "char \<Rightarrow> bool" where
  "plain c = (c \<noteq> COMMA \<and> c \<noteq> QUOTE \<and> c \<noteq> LF \<and> c \<noteq> CR)"

text \<open>The tokenizer after the delimiter \<open>d\<close> that follows the complete field \<open>g\<close>.\<close>

definition close_field :: "char \<Rightarrow> string \<Rightarrow> tok \<Rightarrow> tok" where
  "close_field d g t =
     (if d = LF
      then t\<lparr>tstate := START_RECORD, field := [], line := [], lines := lines t @ [line t @ [g]]\<rparr>
      else t\<lparr>tstate := START_FIELD, field := [], line := line t @ [g]\<rparr>)"

subsection \<open>Predicates of the properties\<close>

text \<open>
  The conversation starts with the system message and every later message is a user or
  an assistant message.
\<close>

fun begins_with_one_system :: "message list \<Rightarrow> bool" where
  "begins_with_one_system [] = False"
| "begins_with_one_system (m # ms) =
     (m = system_message \<and> list_all (\<lambda>m. role m = ''user'' \<or> role m = ''assistant'') ms)"

definition conversation_ok :: "'n world \<Rightarrow> bool" where
  "conversation_ok w = begins_with_one_system (messages (session w))"

text \<open>An outbound call is pinned when, if it sends an email, it sends it to the fixed mailbox.\<close>

fun pinned :: "netcall \<Rightarrow> bool" where
  "pinned (EmailSend p) = (sp_to p = [fixed_recipient])"
| "pinned (LlmPost b) = True"

section \<open>Properties\<close>

subsection \<open>Statements in sequence\<close>

lemma seq_preserves:
  assumes "\<And>w. P w \<Longrightarrow> P (snd (f w))" "\<And>w. P w \<Longrightarrow> P (snd (g w))" "P w"
  shows "P (snd (seq f g w))"
proof (cases "f w")
  case (Pair h w')
  with assms(1)[OF assms(3)] have "P w'" by simp
  with Pair assms(2) show ?thesis by (cases h) (simp_all add: seq_def)
qed

subsection \<open>The completion client\<close>

text \<open>
  C7: when the completion endpoint answers the request with status 200, \<open>get_llm_response\<close>
  returns the value at the JSON path \<^verbatim>\<open>choices[0].message.content\<close> of the body, whatever
  the body holds beside it: the content of the first choice, not of a later one. So for
  every message list, when the body is \<^verbatim>\<open>{"choices":[{"message":{"content":"Hello"}}]}\<close>,
  it returns exactly the string \<^verbatim>\<open>Hello\<close>. In both cases the one request has been sent and
  nothing is shown to the user.
\<close>

theorem generate_returns_path_content:
  assumes "llm_post env \<lparr>model = ''llama3-8b-8192'', request_messages = msgs\<rparr> = Inr r"
    and "status_code r = 200"
  shows "(json r = Some (PDict kvs)
            \<and> map_of kvs ''choices'' = Some (PList (PDict ch # others))
            \<and> map_of ch ''message'' = Some (PDict m)
            \<and> map_of m ''content'' = Some c
          \<longrightarrow> get_llm_response env msgs w =
                (Inr c, call (LlmPost \<lparr>model = ''llama3-8b-8192'', request_messages = msgs\<rparr>) w))
       \<and> (json r = Some hello_body
          \<longrightarrow> get_llm_response env msgs w =
                (Inr (PStr ''Hello''),
                 call (LlmPost \<lparr>model = ''llama3-8b-8192'', request_messages = msgs\<rparr>) w))"
  using assms by (simp add: get_llm_response_def response_content_def hello_body_def Let_def)

theorem generate_returns_path_content_witness:
  "get_llm_response (sample_env \<lparr>status_code = 200, json = Some two_choice_body\<rparr> (Inr PNone))
       [system_message] fresh_world =
     (Inr (PStr ''First''),
      call (LlmPost \<lparr>model = ''llama3-8b-8192'', request_messages = [system_message]\<rparr>) fresh_world)
   \<and> get_llm_response (sample_env \<lparr>status_code = 200, json = Some hello_body\<rparr> (Inr PNone))
       [system_message] fresh_world =
     (Inr (PStr ''Hello''),
      call (LlmPost \<lparr>model = ''llama3-8b-8192'', request_messages = [system_message]\<rparr>) fresh_world)"
proof
  have "llm_post (sample_env \<lparr>status_code = 200, json = Some two_choice_body\<rparr> (Inr PNone))
          \<lparr>model = ''llama3-8b-8192'', request_messages = [system_message]\<rparr>
        = Inr \<lparr>status_code = 200, json = Some two_choice_body\<rparr>"
    by (simp add: sample_env_def)
  from generate_returns_path_content[where kvs = "[(''id'', PStr ''cmpl-1''),
                    (''choices'', PList [PDict [(''index'', PInt 0),
                                                (''message'', PDict [(''role'', PStr ''assistant''),
                                                                     (''content'', PStr ''First'')])],
                                         PDict [(''index'', PInt 1),
                                                (''message'', PDict [(''role'', PStr ''assistant''),
                                                                     (''content'', PStr ''Second'')])]])]"
        and ch = "[(''index'', PInt 0),
                   (''message'', PDict [(''role'', PStr ''assistant''), (''content'', PStr ''First'')])]"
        and others = "[PDict [(''index'', PInt 1),
                              (''message'', PDict [(''role'', PStr ''assistant''),
                                                   (''content'', PStr ''Second'')])]]"
        and m = "[(''role'', PStr ''assistant''), (''content'', PStr ''First'')]"
        and c = "PStr ''First''" and w = fresh_world, OF this, THEN conjunct1]
  show "get_llm_response (sample_env \<lparr>status_code = 200, json = Some two_choice_body\<rparr> (Inr PNone))
       [system_message] fresh_world =
     (Inr (PStr ''First''),
      call (LlmPost \<lparr>model = ''llama3-8b-8192'', request_messages = [system_message]\<rparr>) fresh_world)"
    by (simp add: two_choice_body_def)
next
  have "llm_post (sample_env \<lparr>status_code = 200, json = Some hello_body\<rparr> (Inr PNone))
          \<lparr>model = ''llama3-8b-8192'', request_messages = [system_message]\<rparr>
        = Inr \<lparr>status_code = 200, json = Some hello_body\<rparr>"
    by (simp add: sample_env_def)
  from generate_returns_path_content[where w = fresh_world, OF this, THEN conjunct2]
  show "get_llm_response (sample_env \<lparr>status_code = 200, json = Some hello_body\<rparr> (Inr PNone))
       [system_message] fresh_world =
     (Inr (PStr ''Hello''),
      call (LlmPost \<lparr>model = ''llama3-8b-8192'', request_messages = [system_message]\<rparr>) fresh_world)"
    by simp
qed

text \<open>
  C1, as the code has it: when the completion endpoint answers the request of a Generate
  Email click with a status other than 200, the execution stops and the user is shown the
  error with the status code; the user message with the prompt has been appended to the
  conversation by then and stays there, no assistant message is appended, and the
  generated-flag and the profile are as before. The one request has been sent and the
  profile file is untouched.
\<close>

theorem generate_failure_keeps_user_message:
  assumes "clicked inp = Some Generate_Email"
    and "llm_post env \<lparr>model = ''llama3-8b-8192'',
            request_messages = messages (session w) @
              [\<lparr>role = ''user'', content = PStr (prompt inp)\<rparr>]\<rparr> = Inr r"
    and "status_code r \<noteq> 200"
  shows "fst (on_generate env inp w) = Some Stopped
       \<and> session (snd (on_generate env inp w)) =
           (session w)\<lparr>messages := messages (session w) @
              [\<lparr>role = ''user'', content = PStr (prompt inp)\<rparr>]\<rparr>
       \<and> shown (snd (on_generate env inp w)) =
           shown w @ [Error [Lit ''API request failed with status code '',
                             Val (PInt (status_code r))]]
       \<and> net (snd (on_generate env inp w)) =
           net w @ [LlmPost \<lparr>model = ''llama3-8b-8192'',
                             request_messages = messages (session w) @
                               [\<lparr>role = ''user'', content = PStr (prompt inp)\<rparr>]\<rparr>]
       \<and> store (snd (on_generate env inp w)) = store w"
  using assms
  by (simp add: on_generate_def get_llm_response_def append_message_def say_def call_def Let_def)

theorem generate_failure_keeps_user_message_witness:
  "fst (on_generate (sample_env \<lparr>status_code = 500, json = None\<rparr> (Inr PNone))
          (sample_inputs\<lparr>clicked := Some Generate_Email\<rparr>) fresh_world) = Some Stopped
   \<and> session (snd (on_generate (sample_env \<lparr>status_code = 500, json = None\<rparr> (Inr PNone))
          (sample_inputs\<lparr>clicked := Some Generate_Email\<rparr>) fresh_world)) =
       (session fresh_world)\<lparr>messages := messages (session fresh_world) @
          [\<lparr>role = ''user'',
            content = PStr (prompt (sample_inputs\<lparr>clicked := Some Generate_Email\<rparr>))\<rparr>]\<rparr>
   \<and> shown (snd (on_generate (sample_env \<lparr>status_code = 500, json = None\<rparr> (Inr PNone))
          (sample_inputs\<lparr>clicked := Some Generate_Email\<rparr>) fresh_world)) =
       shown fresh_world @ [Error [Lit ''API request failed with status code '', Val (PInt 500)]]
   \<and> net (snd (on_generate (sample_env \<lparr>status_code = 500, json = None\<rparr> (Inr PNone))
          (sample_inputs\<lparr>clicked := Some Generate_Email\<rparr>) fresh_world)) =
       net fresh_world @ [LlmPost \<lparr>model = ''llama3-8b-8192'',
          request_messages = messages (session fresh_world) @
            [\<lparr>role = ''user'',
              content = PStr (prompt (sample_inputs\<lparr>clicked := Some Generate_Email\<rparr>))\<rparr>]\<rparr>]
   \<and> store (snd (on_generate (sample_env \<lparr>status_code = 500, json = None\<rparr> (Inr PNone))
          (sample_inputs\<lparr>clicked := Some Generate_Email\<rparr>) fresh_world)) = store fresh_world"
proof -
  have click: "clicked (sample_inputs\<lparr>clicked := Some Generate_Email\<rparr>) = Some Generate_Email"
    by simp
  have answer: "llm_post (sample_env \<lparr>status_code = 500, json = None\<rparr> (Inr PNone))
      \<lparr>model = ''llama3-8b-8192'',
         request_messages = messages (session fresh_world) @
           [\<lparr>role = ''user'',
             content = PStr (prompt (sample_inputs\<lparr>clicked := Some Generate_Email\<rparr>))\<rparr>]\<rparr>
      = Inr \<lparr>status_code = 500, json = None\<rparr>"
    by (simp add: sample_env_def)
  have status: "status_code \<lparr>status_code = 500, json = None\<rparr> \<noteq> 200"
    by simp
  from generate_failure_keeps_user_message[OF click answer status]
  show ?thesis by simp
qed

text \<open>
  C1 as the specification states it fails: after a 500 answer to the first Generate Email
  click of a session, the conversation holds the system message and the user message, not
  the system message alone.
\<close>

theorem generate_500_changes_conversation:
  "messages (session (snd (on_generate (sample_env \<lparr>status_code = 500, json = None\<rparr> (Inr PNone))
      (sample_inputs\<lparr>clicked := Some Generate_Email\<rparr>) fresh_world)))
     = [system_message,
        \<lparr>role = ''user'', content = PStr (prompt (sample_inputs\<lparr>clicked := Some Generate_Email\<rparr>))\<rparr>]
   \<and> messages (session (snd (on_generate (sample_env \<lparr>status_code = 500, json = None\<rparr> (Inr PNone))
      (sample_inputs\<lparr>clicked := Some Generate_Email\<rparr>) fresh_world)))
     \<noteq> messages (session fresh_world)"
  by (simp add: on_generate_def get_llm_response_def append_message_def say_def call_def Let_def
      sample_env_def fresh_world_def initial_session_def)

subsection \<open>The email client\<close>

text \<open>
  C4: when the Resend library is absent or the email key is not set, \<open>send_email\<close>
  returns \<^verbatim>\<open>None\<close> and shows an error, for every subject, body and recipient, and makes
  no outbound call.
\<close>

theorem send_unconfigured:
  assumes "\<not> resend_installed env \<or> \<not> truthy (resend_api_key env)"
  shows "send_email env subject body recipient w =
           (PNone, say (Error [Lit ''Email sending is not available. Please install Resend and set the API key.'']) w)
         \<and> net (snd (send_email env subject body recipient w)) = net w"
  using assms by (auto simp add: send_email_def say_def)

theorem send_unconfigured_witness:
  "send_email ((sample_env \<lparr>status_code = 200, json = None\<rparr> (Inr PNone))\<lparr>resend_api_key := None\<rparr>)
      ''Hello - Bob'' (PStr ''Hello'') ''bob@example.com'' fresh_world =
     (PNone, say (Error [Lit ''Email sending is not available. Please install Resend and set the API key.'']) fresh_world)
   \<and> net (snd (send_email ((sample_env \<lparr>status_code = 200, json = None\<rparr> (Inr PNone))\<lparr>resend_api_key := None\<rparr>)
      ''Hello - Bob'' (PStr ''Hello'') ''bob@example.com'' fresh_world)) = net fresh_world"
  by (rule send_unconfigured) (simp add: sample_env_def)

lemma report_success_iff: "is_success (report_result v) = has_id v"
  by (cases v) (auto split: option.splits)

lemma report_error_iff: "is_error (report_result v) = (\<not> has_id v)"
  by (cases v) (auto split: option.splits)

text \<open>
  C5: when Send Email is clicked, sending is configured, and \<^verbatim>\<open>resend.Emails.send\<close>
  returns without an exception a result that is not a dictionary with the key \<^verbatim>\<open>id\<close>,
  the one message shown to the user is an error, not a success.
\<close>

theorem send_without_id_fails:
  assumes "email_generated (session w)" and "clicked inp = Some Send_Email"
    and "resend_installed env" and "truthy (resend_api_key env)"
    and "messages (session w) = ms @ [m]"
    and "resend_send env \<lparr>sp_from = ''onboarding@resend.dev'', sp_to = [fixed_recipient],
                           sp_subject = email_subject inp, sp_html = content m\<rparr> = Inr v"
    and "\<not> has_id v"
  shows "\<exists>e. shown (snd (on_send env inp w)) = shown w @ [e] \<and> is_error e \<and> \<not> is_success e"
  using assms report_error_iff[of v] report_success_iff[of v]
  by (simp add: on_send_def send_email_def say_def call_def Let_def)

theorem send_without_id_fails_witness:
  "\<exists>e. shown (snd (on_send (sample_env \<lparr>status_code = 200, json = None\<rparr>
                              (Inr (PDict [(''status'', PStr ''queued'')])))
                    (sample_inputs\<lparr>clicked := Some Send_Email\<rparr>) generated_world))
        = shown generated_world @ [e] \<and> is_error e \<and> \<not> is_success e"
  by (rule send_without_id_fails[where v = "PDict [(''status'', PStr ''queued'')]"
        and m = "\<lparr>role = ''assistant'', content = PStr ''Hello''\<rparr>"
        and ms = "[system_message, \<lparr>role = ''user'', content = PStr (prompt sample_inputs)\<rparr>]"])
     (simp_all add: sample_env_def generated_world_def generated_session_def)

subsection \<open>The recipient\<close>

lemma script_ignores_recipient_email:
  "script env (inp\<lparr>recipient_email := a\<rparr>) = script env (inp\<lparr>recipient_email := b\<rparr>)"
proof -
  have "choose_profile env (inp\<lparr>recipient_email := a\<rparr>) =
        choose_profile env (inp\<lparr>recipient_email := b\<rparr>)"
    by (rule ext) (simp add: choose_profile_def split: choice.splits sum.splits)
  moreover have "on_save (inp\<lparr>recipient_email := a\<rparr>) =
        (on_save (inp\<lparr>recipient_email := b\<rparr>) :: 'a world \<Rightarrow> _)"
    by (rule ext) (simp add: on_save_def form_of_def)
  moreover have "on_generate env (inp\<lparr>recipient_email := a\<rparr>) =
        on_generate env (inp\<lparr>recipient_email := b\<rparr>)"
    by (rule ext) (simp add: on_generate_def prompt_def split: prod.splits sum.splits)
  moreover have "on_send env (inp\<lparr>recipient_email := a\<rparr>) =
        on_send env (inp\<lparr>recipient_email := b\<rparr>)"
    by (rule ext) (simp add: on_send_def split: list.splits prod.splits)
  moreover have "on_start_over (inp\<lparr>recipient_email := a\<rparr>) =
        (on_start_over (inp\<lparr>recipient_email := b\<rparr>) :: 'a world \<Rightarrow> _)"
    by (rule ext) (simp add: on_start_over_def)
  ultimately show ?thesis by (simp add: script_def)
qed

lemma run_ignores_recipient_email:
  "run env (inp\<lparr>recipient_email := a\<rparr>) st = run env (inp\<lparr>recipient_email := b\<rparr>) st"
  by (simp add: run_def script_ignores_recipient_email[where a = a and b = b])

lemma choose_profile_net: "net (snd (choose_profile env inp w)) = net w"
  by (simp add: choose_profile_def set_profile_def say_def split: choice.splits sum.splits)

lemma on_save_net: "net (snd (on_save inp w)) = net w"
  by (simp add: on_save_def set_profile_def say_def save_profile_def)

lemma on_generate_net:
  "list_all pinned (net w) \<Longrightarrow> list_all pinned (net (snd (on_generate env inp w)))"
  by (simp add: on_generate_def get_llm_response_def append_message_def say_def call_def Let_def
      split: sum.splits)

lemma on_send_net:
  "list_all pinned (net w) \<Longrightarrow> list_all pinned (net (snd (on_send env inp w)))"
  by (simp add: on_send_def send_email_def say_def call_def Let_def
      split: sum.splits list.splits)

lemma history_net: "net (snd (history w)) = net w"
  by (simp add: history_def)

lemma on_start_over_net: "net (snd (on_start_over inp w)) = net w"
  by (simp add: on_start_over_def)

lemma script_net:
  assumes "list_all pinned (net w)"
  shows "list_all pinned (net (snd (script env inp w)))"
  unfolding script_def
  by (intro seq_preserves[where P = "\<lambda>w. list_all pinned (net w)"] assms)
     (simp_all add: choose_profile_net on_save_net on_generate_net on_send_net history_net
        on_start_over_net)

lemma run_calls_pinned: "list_all pinned (calls (run env inp st))"
proof -
  have "list_all pinned (net (snd (script env inp (boot env st))))"
    by (rule script_net) (simp add: boot_def)
  then show ?thesis
    by (simp add: run_def split: prod.splits) (metis snd_conv)
qed

text \<open>
  C3: an execution of the script does not depend on what the user entered as the
  recipient's email (two executions that differ only in that input are equal, outbound
  calls included), and every email it sends goes to the one address
  \<^verbatim>\<open>spam.vanshjain@gmail.com\<close>.
\<close>

theorem recipient_is_pinned:
  "run env (inp\<lparr>recipient_email := a\<rparr>) st = run env (inp\<lparr>recipient_email := b\<rparr>) st
   \<and> (EmailSend p \<in> set (calls (run env inp st)) \<longrightarrow> sp_to p = [''spam.vanshjain@gmail.com''])"
proof
  show "run env (inp\<lparr>recipient_email := a\<rparr>) st = run env (inp\<lparr>recipient_email := b\<rparr>) st"
    by (rule run_ignores_recipient_email)
  show "EmailSend p \<in> set (calls (run env inp st)) \<longrightarrow> sp_to p = [''spam.vanshjain@gmail.com'']"
    using run_calls_pinned[of env inp st]
    by (auto simp add: list_all_iff fixed_recipient_def)
qed

theorem recipient_is_pinned_witness:
  "EmailSend \<lparr>sp_from = ''onboarding@resend.dev'', sp_to = [''spam.vanshjain@gmail.com''],
              sp_subject = ''Hello - Bob'', sp_html = PStr ''Hello''\<rparr>
     \<in> set (calls (run (sample_env \<lparr>status_code = 200, json = None\<rparr> (Inr PNone))
                   (sample_inputs\<lparr>clicked := Some Send_Email\<rparr>)
                   \<lparr>session_state = Some generated_session, profile_file = None\<rparr>))
   \<and> sp_to \<lparr>sp_from = ''onboarding@resend.dev'', sp_to = [''spam.vanshjain@gmail.com''],
             sp_subject = ''Hello - Bob'', sp_html = PStr ''Hello''\<rparr>
       = [''spam.vanshjain@gmail.com'']"
proof -
  have "calls (run (sample_env \<lparr>status_code = 200, json = None\<rparr> (Inr PNone))
                   (sample_inputs\<lparr>clicked := Some Send_Email\<rparr>)
                   \<lparr>session_state = Some generated_session, profile_file = None\<rparr>)
        = [EmailSend \<lparr>sp_from = ''onboarding@resend.dev'', sp_to = [''spam.vanshjain@gmail.com''],
              sp_subject = ''Hello - Bob'', sp_html = PStr ''Hello''\<rparr>]"
    by (simp add: run_def boot_def script_def seq_def choose_profile_def set_profile_def
        on_save_def on_generate_def on_send_def send_email_def history_def on_start_over_def
        say_def call_def sample_env_def sample_inputs_def generated_session_def
        fixed_recipient_def Let_def)
  then have "EmailSend \<lparr>sp_from = ''onboarding@resend.dev'', sp_to = [''spam.vanshjain@gmail.com''],
              sp_subject = ''Hello - Bob'', sp_html = PStr ''Hello''\<rparr>
     \<in> set (calls (run (sample_env \<lparr>status_code = 200, json = None\<rparr> (Inr PNone))
                   (sample_inputs\<lparr>clicked := Some Send_Email\<rparr>)
                   \<lparr>session_state = Some generated_session, profile_file = None\<rparr>))"
    by simp
  with recipient_is_pinned[where env = "sample_env \<lparr>status_code = 200, json = None\<rparr> (Inr PNone)"
      and inp = "sample_inputs\<lparr>clicked := Some Send_Email\<rparr>"
      and st = "\<lparr>session_state = Some generated_session, profile_file = None\<rparr>"]
  show ?thesis by blast
qed

subsection \<open>The profile store\<close>

text \<open>
  C6: when the profile file does not exist, \<open>load_profiles\<close> raises nothing and returns
  the table without rows whose columns are Name, Industry, Company and Target Audience.
\<close>

theorem load_without_store:
  assumes "store w = None"
  shows "load_profiles env w =
           Inr \<lparr>columns = [''Name'', ''Industry'', ''Company'', ''Target Audience''], rows = []\<rparr>"
  using assms by (simp add: load_profiles_def read_csv_def profile_columns_def)

theorem load_without_store_witness:
  "load_profiles (sample_env \<lparr>status_code = 200, json = None\<rparr> (Inr PNone)) fresh_world =
     Inr \<lparr>columns = [''Name'', ''Industry'', ''Company'', ''Target Audience''], rows = []\<rparr>"
  by (rule load_without_store) (simp add: fresh_world_def)

subsection \<open>Writing and reading the profile file\<close>

lemma chars_distinct:
  "COMMA \<noteq> LF" "COMMA \<noteq> CR" "COMMA \<noteq> QUOTE" "QUOTE \<noteq> LF" "QUOTE \<noteq> CR" "LF \<noteq> CR"
  "\<not> is_whitespace COMMA" "\<not> is_whitespace QUOTE" "\<not> is_whitespace LF" "\<not> is_whitespace CR"
  by (simp_all add: COMMA_def LF_def CR_def QUOTE_def is_whitespace_def)

lemma not_needs_quotes: "\<not> needs_quotes f \<longleftrightarrow> list_all plain f"
  by (induction f) (auto simp add: needs_quotes_def plain_def)

lemma plain_in_field:
  assumes "list_all plain cs" and "tstate t = IN_FIELD"
  shows "foldl tok_step t cs = t\<lparr>field := field t @ cs\<rparr>"
  using assms
proof (induction cs arbitrary: t)
  case Nil
  then show ?case by simp
next
  case (Cons c cs)
  then have "tok_step t c = t\<lparr>field := field t @ [c]\<rparr>"
    by (simp add: tok_step_def in_field_def push_char_def plain_def)
  with Cons show ?case by simp
qed

lemma quoted_body:
  assumes "tstate t = IN_QUOTED_FIELD"
  shows "foldl tok_step t (double_quotes g) = t\<lparr>field := field t @ g\<rparr>"
  using assms
proof (induction g arbitrary: t)
  case Nil
  then show ?case by (simp add: double_quotes_def)
next
  case (Cons c g)
  have step: "foldl tok_step t (if c = QUOTE then [c, c] else [c]) = t\<lparr>field := field t @ [c]\<rparr>"
    using Cons.prems by (simp add: tok_step_def push_char_def)
  have "foldl tok_step t (double_quotes (c # g)) =
        foldl tok_step (foldl tok_step t (if c = QUOTE then [c, c] else [c])) (double_quotes g)"
    by (simp add: double_quotes_def del: foldl_Cons)
  also have "\<dots> = foldl tok_step (t\<lparr>field := field t @ [c]\<rparr>) (double_quotes g)"
    by (simp only: step)
  also have "\<dots> = t\<lparr>field := field t @ c # g\<rparr>"
    using Cons.IH[of "t\<lparr>field := field t @ [c]\<rparr>"] Cons.prems by simp
  finally show ?case .
qed

lemma field_then_delimiter:
  assumes "tstate t = START_FIELD" and "field t = []" and "d = COMMA \<or> d = LF"
  shows "foldl tok_step t (csv_field g @ [d]) = close_field d g t"
proof (cases "needs_quotes g")
  case True
  let ?t1 = "t\<lparr>tstate := IN_QUOTED_FIELD\<rparr>"
  have 1: "tok_step t QUOTE = ?t1"
    using assms by (simp add: tok_step_def start_field_def chars_distinct)
  have 2: "foldl tok_step ?t1 (double_quotes g) = ?t1\<lparr>field := g\<rparr>"
    using quoted_body[of ?t1 g] assms by simp
  have 3: "foldl tok_step (?t1\<lparr>field := g\<rparr>) [QUOTE, d] = close_field d g t"
    using assms chars_distinct
    by (auto simp add: tok_step_def in_field_def end_field_def end_line_def close_field_def)
  have "foldl tok_step t (csv_field g @ [d]) =
        foldl tok_step (foldl tok_step (tok_step t QUOTE) (double_quotes g)) [QUOTE, d]"
    using True by (simp add: csv_field_def)
  then show ?thesis by (simp only: 1 2 3)
next
  case False
  then have pl: "list_all plain g" by (simp add: not_needs_quotes)
  show ?thesis
  proof (cases g)
    case Nil
    with False assms chars_distinct show ?thesis
      by (auto simp add: csv_field_def tok_step_def start_field_def end_field_def end_line_def
          close_field_def)
  next
    case (Cons c cs)
    with pl have c: "plain c" and cs: "list_all plain cs" by simp_all
    let ?t1 = "t\<lparr>tstate := IN_FIELD, field := [c]\<rparr>"
    have 1: "tok_step t c = ?t1"
      using assms c by (simp add: tok_step_def start_field_def push_char_def plain_def)
    have 2: "foldl tok_step ?t1 cs = ?t1\<lparr>field := c # cs\<rparr>"
      using plain_in_field[OF cs, of ?t1] by simp
    have 3: "tok_step (?t1\<lparr>field := c # cs\<rparr>) d = close_field d g t"
      using assms chars_distinct Cons
      by (auto simp add: tok_step_def in_field_def end_field_def end_line_def close_field_def)
    have "foldl tok_step t (csv_field g @ [d]) = tok_step (foldl tok_step (tok_step t c) cs) d"
      using False Cons by (simp add: csv_field_def)
    then show ?thesis by (simp only: 1 2 3)
  qed
qed


lemma plain_at_line_start:
  assumes "list_all plain cs" and "tstate t = IN_FIELD \<or> tstate t = WHITESPACE_LINE"
  shows "\<exists>S. (S = IN_FIELD \<or> S = WHITESPACE_LINE) \<and>
             foldl tok_step t cs = t\<lparr>tstate := S, field := field t @ cs\<rparr>"
  using assms
proof (induction cs arbitrary: t)
  case Nil
  then show ?case by auto
next
  case (Cons c cs)
  from Cons.prems have c: "plain c" and cs: "list_all plain cs" by simp_all
  have "\<exists>S. (S = IN_FIELD \<or> S = WHITESPACE_LINE) \<and>
             tok_step t c = t\<lparr>tstate := S, field := field t @ [c]\<rparr>"
    using Cons.prems(2) c
    by (auto simp add: tok_step_def in_field_def push_char_def plain_def)
  then obtain S where S: "S = IN_FIELD \<or> S = WHITESPACE_LINE"
    and step: "tok_step t c = t\<lparr>tstate := S, field := field t @ [c]\<rparr>"
    by blast
  from Cons.IH[OF cs, of "t\<lparr>tstate := S, field := field t @ [c]\<rparr>"] S
  obtain S' where "S' = IN_FIELD \<or> S' = WHITESPACE_LINE"
    and "foldl tok_step (t\<lparr>tstate := S, field := field t @ [c]\<rparr>) cs =
         t\<lparr>tstate := S', field := field t @ c # cs\<rparr>"
    by auto
  with step show ?case by auto
qed

lemma first_field_then_comma:
  assumes "tstate t = START_RECORD" and "field t = []"
  shows "foldl tok_step t (csv_field g @ [COMMA]) = close_field COMMA g t"
proof (cases "needs_quotes g")
  case True
  let ?t1 = "t\<lparr>tstate := IN_QUOTED_FIELD\<rparr>"
  have 1: "tok_step t QUOTE = ?t1"
    using assms by (simp add: tok_step_def start_record_def start_field_def chars_distinct)
  have 2: "foldl tok_step ?t1 (double_quotes g) = ?t1\<lparr>field := g\<rparr>"
    using quoted_body[of ?t1 g] assms by simp
  have 3: "foldl tok_step (?t1\<lparr>field := g\<rparr>) [QUOTE, COMMA] = close_field COMMA g t"
    using assms chars_distinct
    by (auto simp add: tok_step_def in_field_def end_field_def end_line_def close_field_def)
  have "foldl tok_step t (csv_field g @ [COMMA]) =
        foldl tok_step (foldl tok_step (tok_step t QUOTE) (double_quotes g)) [QUOTE, COMMA]"
    using True by (simp add: csv_field_def)
  then show ?thesis by (simp only: 1 2 3)
next
  case False
  then have pl: "list_all plain g" by (simp add: not_needs_quotes)
  show ?thesis
  proof (cases g)
    case Nil
    with False assms chars_distinct show ?thesis
      by (auto simp add: csv_field_def tok_step_def start_record_def start_field_def
          end_field_def end_line_def close_field_def)
  next
    case (Cons c cs)
    with pl have c: "plain c" and cs: "list_all plain cs" by simp_all
    have "\<exists>S. (S = IN_FIELD \<or> S = WHITESPACE_LINE) \<and> tok_step t c = t\<lparr>tstate := S, field := [c]\<rparr>"
      using assms c
      by (auto simp add: tok_step_def start_record_def start_field_def push_char_def plain_def)
    then obtain S where S: "S = IN_FIELD \<or> S = WHITESPACE_LINE"
      and 1: "tok_step t c = t\<lparr>tstate := S, field := [c]\<rparr>"
      by blast
    from plain_at_line_start[OF cs, of "t\<lparr>tstate := S, field := [c]\<rparr>"] S
    obtain S' where S': "S' = IN_FIELD \<or> S' = WHITESPACE_LINE"
      and 2: "foldl tok_step (t\<lparr>tstate := S, field := [c]\<rparr>) cs = t\<lparr>tstate := S', field := c # cs\<rparr>"
      by auto
    have 3: "tok_step (t\<lparr>tstate := S', field := c # cs\<rparr>) COMMA = close_field COMMA g t"
      using S' chars_distinct Cons
      by (auto simp add: tok_step_def in_field_def end_field_def end_line_def close_field_def)
    have "foldl tok_step t (csv_field g @ [COMMA]) = tok_step (foldl tok_step (tok_step t c) cs) COMMA"
      using False Cons by (simp add: csv_field_def)
    then show ?thesis by (simp only: 1 2 3)
  qed
qed

lemma rest_of_row:
  assumes "gs \<noteq> []" and "tstate t = START_FIELD" and "field t = []"
  shows "foldl tok_step t (join_fields (map csv_field gs) @ [LF]) =
         t\<lparr>tstate := START_RECORD, field := [], line := [], lines := lines t @ [line t @ gs]\<rparr>"
  using assms
proof (induction gs arbitrary: t rule: list_nonempty_induct)
  case (single g)
  then show ?case
    using field_then_delimiter[of t LF g] by (simp add: close_field_def)
next
  case (cons g gs)
  from cons.hyps obtain h hs where gs: "gs = h # hs" by (cases gs) auto
  have "foldl tok_step t (join_fields (map csv_field (g # gs)) @ [LF]) =
        foldl tok_step (foldl tok_step t (csv_field g @ [COMMA])) (join_fields (map csv_field gs) @ [LF])"
    by (simp add: gs)
  also have "foldl tok_step t (csv_field g @ [COMMA]) = t\<lparr>line := line t @ [g]\<rparr>"
    using field_then_delimiter[of t COMMA g] cons.prems chars_distinct
    by (simp add: close_field_def)
  also have "foldl tok_step (t\<lparr>line := line t @ [g]\<rparr>) (join_fields (map csv_field gs) @ [LF]) =
        t\<lparr>tstate := START_RECORD, field := [], line := [], lines := lines t @ [line t @ g # gs]\<rparr>"
    using cons.IH[of "t\<lparr>line := line t @ [g]\<rparr>"] cons.prems by simp
  finally show ?case .
qed

lemma tokenize_row:
  assumes "2 \<le> length fs" and "tstate t = START_RECORD" and "field t = []" and "line t = []"
  shows "foldl tok_step t (to_csv fs) = t\<lparr>lines := lines t @ [fs]\<rparr>"
proof -
  from assms(1) obtain f gs where fs: "fs = f # gs" and gs: "gs \<noteq> []"
    by (cases fs; cases "tl fs") auto
  from gs obtain h hs where hs: "gs = h # hs" by (cases gs) auto
  have "foldl tok_step t (to_csv fs) =
        foldl tok_step (foldl tok_step t (csv_field f @ [COMMA])) (join_fields (map csv_field gs) @ [LF])"
    by (simp add: to_csv_def fs hs)
  also have "foldl tok_step t (csv_field f @ [COMMA]) = t\<lparr>tstate := START_FIELD, line := [f]\<rparr>"
    using first_field_then_comma[of t f] assms chars_distinct by (simp add: close_field_def)
  also have "foldl tok_step (t\<lparr>tstate := START_FIELD, line := [f]\<rparr>) (join_fields (map csv_field gs) @ [LF]) =
        t\<lparr>lines := lines t @ [fs]\<rparr>"
    using rest_of_row[OF gs, of "t\<lparr>tstate := START_FIELD, line := [f]\<rparr>"] assms by (simp add: fs)
  finally show ?thesis .
qed

lemma tokenize_rows:
  assumes "list_all (\<lambda>r. 2 \<le> length r) rs"
    and "tstate t = START_RECORD" and "field t = []" and "line t = []"
  shows "foldl tok_step t (concat (map to_csv rs)) = t\<lparr>lines := lines t @ rs\<rparr>"
  using assms
proof (induction rs arbitrary: t)
  case Nil
  then show ?case by simp
next
  case (Cons r rs)
  then have "foldl tok_step t (to_csv r) = t\<lparr>lines := lines t @ [r]\<rparr>"
    using tokenize_row[of r t] by simp
  with Cons.IH[of "t\<lparr>lines := lines t @ [r]\<rparr>"] Cons.prems show ?case by simp
qed

lemma tokenize_to_csv:
  assumes "list_all (\<lambda>r. 2 \<le> length r) rs"
  shows "tokenize (concat (map to_csv rs)) = Inr rs"
  using tokenize_rows[OF assms, of "\<lparr>tstate = START_RECORD, field = [], line = [], lines = []\<rparr>"]
  by (simp add: tokenize_def handle_eof_def)

lemma length_fill: "length (fill ts vs) = length ts"
  by (induction ts arbitrary: vs) (auto split: list.splits)

lemma length_convert_column: "length (convert_column infer ts) = length ts"
  by (simp add: convert_column_def Let_def length_fill split: option.splits)

lemma convert_text_cell:
  assumes "i < length ts" and "reads_as_text infer (ts ! i)"
  shows "convert_column infer ts ! i = Str (ts ! i)"
proof -
  let ?live = "filter (\<lambda>t. \<not> is_na t) ts"
  from assms have mem: "ts ! i \<in> set ?live" by (simp add: reads_as_text_def)
  then have "?live \<noteq> []" by (metis empty_iff list.set(1))
  moreover from assms mem have "infer ?live = None" by (simp add: reads_as_text_def)
  ultimately have "convert_column infer ts = map (\<lambda>t. if is_na t then NaN else Str t) ts"
    by (simp add: convert_column_def Let_def)
  with assms show ?thesis by (simp add: reads_as_text_def)
qed

lemma pad_full: "length r = n \<Longrightarrow> pad n r = r"
  by (simp add: pad_def)

lemma read_rows_last:
  assumes rect: "list_all (\<lambda>r. length r = 4) rs" and ne: "rs \<noteq> []"
    and tx: "list_all (reads_as_text infer) (last rs)"
  shows "transpose (map (convert_column infer) (transpose (map (pad 4) rs))) \<noteq> []
       \<and> length (transpose (map (convert_column infer) (transpose (map (pad 4) rs)))) = length rs
       \<and> last (transpose (map (convert_column infer) (transpose (map (pad 4) rs)))) = map Str (last rs)"
proof -
  let ?n = "length rs"
  from rect have len: "\<And>i. i < ?n \<Longrightarrow> length (rs ! i) = 4"
    by (simp add: list_all_length)
  from rect have "map (pad 4) rs = rs"
    by (induction rs) (simp_all add: pad_full)
  moreover have cols: "transpose rs = map (\<lambda>i. map (\<lambda>j. rs ! j ! i) [0..<?n]) [0..<4]"
    by (rule transpose_rectangle) (use ne len in auto)
  ultimately have 1: "map (convert_column infer) (transpose (map (pad 4) rs)) =
      map (\<lambda>i. convert_column infer (map (\<lambda>j. rs ! j ! i) [0..<?n])) [0..<4]" (is "_ = ?cc")
    by simp
  have 2: "transpose ?cc = map (\<lambda>i. map (\<lambda>j. ?cc ! j ! i) [0..<length ?cc]) [0..<?n]"
    by (rule transpose_rectangle) (simp_all add: length_convert_column)
  from ne have n: "0 < ?n" by simp
  have lastrow: "last rs = rs ! (?n - 1)" using ne by (simp add: last_conv_nth)
  have cell: "?cc ! j ! (?n - 1) = Str (last rs ! j)" if "j < 4" for j
  proof -
    let ?ts = "map (\<lambda>k. rs ! k ! j) [0..<?n]"
    have "?ts ! (?n - 1) = last rs ! j" using n by (simp add: lastrow)
    moreover have "reads_as_text infer (last rs ! j)"
      using tx that len[of "?n - 1"] n by (simp add: list_all_length lastrow)
    ultimately have "convert_column infer ?ts ! (?n - 1) = Str (last rs ! j)"
      using convert_text_cell[of "?n - 1" ?ts infer] n by simp
    with that show ?thesis by simp
  qed
  have "last (transpose ?cc) = map (\<lambda>j. ?cc ! j ! (?n - 1)) [0..<4]"
    using n by (simp add: 2 last_conv_nth)
  also have "\<dots> = map (\<lambda>j. Str (last rs ! j)) [0..<4]"
    using cell by simp
  also have "\<dots> = map Str (last rs)"
    using len[of "?n - 1"] n
    by (intro nth_equalityI) (simp_all add: lastrow)
  finally have "last (transpose ?cc) = map Str (last rs)" .
  moreover have "length (transpose ?cc) = ?n" by (simp add: 2)
  ultimately show ?thesis using n by (auto simp add: 1)
qed

lemma stored_snoc: "stored (ps @ [p]) = stored ps @ to_csv (profile_fields p)"
  by (simp add: stored_def)

lemma tokenize_stored: "tokenize (stored ps) = Inr (map profile_fields ps)"
proof -
  have "list_all (\<lambda>r. 2 \<le> length r) (map profile_fields ps)"
    by (induction ps) (simp_all add: profile_fields_def)
  from tokenize_to_csv[OF this] show ?thesis by (simp add: stored_def comp_def)
qed

text \<open>
  What the store does restore. Let the profile file be absent, or hold the rows of earlier
  saves and nothing else. If every field of the profile reads as text, then after saving
  it the table loads with one row more, and its last row is the saved profile, field for
  field. Quotes, commas and line breaks inside a field are covered.
\<close>

theorem save_load_round_trip:
  assumes "store w = None \<and> ps = [] \<or> store w = Some (stored ps)"
    and "list_all (reads_as_text (dtype_infer env)) (profile_fields p)"
  shows "\<exists>df. load_profiles env (save_profile p w) = Inr df
            \<and> columns df = profile_columns
            \<and> length (rows df) = Suc (length ps)
            \<and> last (rows df) = map Str (profile_fields p)"
proof -
  let ?rs = "map profile_fields (ps @ [p])"
  have st: "store (save_profile p w) = Some (stored (ps @ [p]))"
    using assms(1) by (auto simp add: save_profile_def stored_def)
  have rect: "list_all (\<lambda>r. length r = 4) ?rs"
    by (simp add: list_all_iff profile_fields_def)
  then have nolong: "\<not> list_ex (\<lambda>r. length profile_columns < length r) ?rs"
    by (simp add: list_ex_iff list_all_iff profile_columns_def)
  have four: "length profile_columns = 4" by (simp add: profile_columns_def)
  from read_rows_last[OF rect, of "dtype_infer env"] assms(2)
  have last: "length (transpose (map (convert_column (dtype_infer env)) (transpose (map (pad 4) ?rs)))) = Suc (length ps)"
    "last (transpose (map (convert_column (dtype_infer env)) (transpose (map (pad 4) ?rs)))) = map Str (profile_fields p)"
    by simp_all
  have "load_profiles env (save_profile p w) =
      Inr \<lparr>columns = profile_columns,
           rows = transpose (map (convert_column (dtype_infer env)) (transpose (map (pad 4) ?rs)))\<rparr>"
    using nolong by (simp add: load_profiles_def read_csv_def st tokenize_stored four del: map_append)
  with last show ?thesis by simp
qed

theorem save_load_round_trip_witness:
  "\<exists>df. load_profiles (sample_env \<lparr>status_code = 200, json = None\<rparr> (Inr PNone))
           (save_profile quoting_profile
              (fresh_world\<lparr>store := Some (stored [ann_profile, nameless_profile])\<rparr>)) = Inr df
      \<and> columns df = profile_columns
      \<and> length (rows df) = Suc (length [ann_profile, nameless_profile])
      \<and> last (rows df) = map Str (profile_fields quoting_profile)"
  by (rule save_load_round_trip)
     (simp_all add: reads_as_text_def sample_env_def quoting_profile_def profile_fields_def
        is_na_def na_values_def LF_def QUOTE_def)

lemma tokenize_ann:
  "tokenize (to_csv (profile_fields ann_profile)) = Inr [[''Ann'', ''Tech'', [], ''x'']]"
  by (simp add: to_csv_def csv_field_def needs_quotes_def profile_fields_def ann_profile_def
      tokenize_def tok_step_def start_record_def start_field_def in_field_def
      end_field_def end_line_def push_char_def handle_eof_def LF_def CR_def QUOTE_def
      COMMA_def is_whitespace_def)

lemma convert_empty_field: "convert_column infer [[]] = [NaN]"
  by (simp add: convert_column_def is_na_def na_values_def)

lemma convert_single: "\<exists>v. convert_column infer [t] = [v]"
  by (cases "is_na t"; cases "infer [t]")
     (auto simp add: convert_column_def Let_def split: list.splits)

text \<open>
  C2 fails on the code at a profile with an empty field: saving the profile with Name
  \<^verbatim>\<open>Ann\<close>, Industry \<^verbatim>\<open>Tech\<close>, an empty Company and Target Audience \<^verbatim>\<open>x\<close> into
  a store that does not exist yet writes the line \<^verbatim>\<open>Ann,Tech,,x\<close>, and loading the table
  then gives one row whose Company is the missing value, not the empty string, whatever
  types pandas infers for the other columns.
\<close>

theorem empty_company_not_restored:
  "\<exists>c0 c1 c3.
     load_profiles env (save_profile ann_profile (w\<lparr>store := None\<rparr>))
       = Inr \<lparr>columns = profile_columns, rows = [[c0, c1, NaN, c3]]\<rparr>
     \<and> [c0, c1, NaN, c3] \<noteq> map Str (profile_fields ann_profile)"
proof -
  obtain c0 c1 c3 where cs: "convert_column (dtype_infer env) [''Ann''] = [c0]"
     "convert_column (dtype_infer env) [''Tech''] = [c1]"
     "convert_column (dtype_infer env) [''x''] = [c3]"
    using convert_single by metis
  have "load_profiles env (save_profile ann_profile (w\<lparr>store := None\<rparr>))
       = Inr \<lparr>columns = profile_columns, rows = [[c0, c1, NaN, c3]]\<rparr>"
    by (simp add: load_profiles_def save_profile_def read_csv_def tokenize_ann
          profile_columns_def pad_def convert_empty_field cs)
  then show ?thesis by (auto simp add: profile_fields_def)
qed

lemma index_of_Name: "index_of ''Name'' profile_columns = Some 0"
  by (simp add: profile_columns_def)

lemma select_rows_filter: "map fst (filter snd (zip xs (map P xs))) = filter P xs"
  by (induction xs) auto

lemma filter_first_match:
  "list_all (\<lambda>q. \<not> P q) pre \<Longrightarrow> P r \<Longrightarrow> filter P (pre @ r # post) = r # filter P post"
  by (induction pre) auto

text \<open>
  A profile saved without a name makes the next execution fail: its Name is read back as
  the missing value, which equals nothing, so no row is selected and \<^verbatim>\<open>iloc[0]\<close> raises.
\<close>

lemma tokenize_nameless:
  "tokenize (to_csv (profile_fields nameless_profile)) = Inr [[[], ''Tech'', ''Acme'', ''x'']]"
  by (simp add: to_csv_def csv_field_def needs_quotes_def profile_fields_def nameless_profile_def
      tokenize_def tok_step_def start_record_def start_field_def in_field_def
      end_field_def end_line_def push_char_def handle_eof_def LF_def CR_def QUOTE_def
      COMMA_def is_whitespace_def)

lemma empty_name_breaks_loading:
  assumes "profile_choice inp = Load_Existing_Profile"
  shows "fst (choose_profile env inp (save_profile nameless_profile (w\<lparr>store := None\<rparr>)))
           = Some (Raised IndexError)"
proof -
  obtain c1 c2 c3 where cs: "convert_column (dtype_infer env) [''Tech''] = [c1]"
     "convert_column (dtype_infer env) [''Acme''] = [c2]"
     "convert_column (dtype_infer env) [''x''] = [c3]"
    using convert_single by metis
  have "load_profiles env (save_profile nameless_profile (w\<lparr>store := None\<rparr>))
       = Inr \<lparr>columns = profile_columns, rows = [[NaN, c1, c2, c3]]\<rparr>"
    by (simp add: load_profiles_def save_profile_def read_csv_def tokenize_nameless
          profile_columns_def pad_def convert_empty_field cs)
  then show ?thesis
    using assms
    by (simp add: choose_profile_def load_existing_profile_def column_def index_of_Name
        select_rows_def selectbox_def cell_at_def)
qed

text \<open>
  C10: in a table with the four profile columns, let the selected name be what the select
  box returns. If a row \<open>r\<close> has that name and no row before it has, the profile loaded is
  \<open>r\<close>, whatever rows follow: of several rows with the selected name the first in store
  order is loaded, a later one never.
\<close>

theorem load_takes_first_match:
  assumes "columns profiles = profile_columns"
    and "rows profiles = pre @ r # post"
    and "cell_eq (cell_at r 0) (selectbox (map (\<lambda>q. cell_at q 0) (rows profiles)) i)"
    and "list_all (\<lambda>q. \<not> cell_eq (cell_at q 0)
            (selectbox (map (\<lambda>q. cell_at q 0) (rows profiles)) i)) pre"
  shows "load_existing_profile profiles i = Inr (zip profile_columns r)"
proof -
  let ?sel = "selectbox (map (\<lambda>q. cell_at q 0) (rows profiles)) i"
  have col: "column profiles ''Name'' = Inr (map (\<lambda>q. cell_at q 0) (rows profiles))"
    by (simp add: column_def assms(1) index_of_Name)
  have "select_rows profiles (map (\<lambda>v. cell_eq v ?sel) (map (\<lambda>q. cell_at q 0) (rows profiles)))
          = filter (\<lambda>q. cell_eq (cell_at q 0) ?sel) (rows profiles)"
    using select_rows_filter[of "rows profiles" "\<lambda>q. cell_eq (cell_at q 0) ?sel"]
    by (simp add: select_rows_def comp_def)
  also have "\<dots> = r # filter (\<lambda>q. cell_eq (cell_at q 0) ?sel) post"
    using filter_first_match[of "\<lambda>q. cell_eq (cell_at q 0) ?sel" pre r post] assms(2,3,4)
    by simp
  finally show ?thesis
    by (simp add: load_existing_profile_def col Let_def assms(1))
qed

theorem load_takes_first_match_witness:
  "load_existing_profile
     \<lparr>columns = profile_columns,
      rows = [[Str ''Bob'', Str ''Law'', Str ''Firm'', Str ''y''],
              [Str ''Ann'', Str ''Tech'', Str ''Acme'', Str ''x''],
              [Str ''Ann'', Str ''Art'', Str ''Studio'', Str ''z'']]\<rparr> 2
   = Inr (zip profile_columns [Str ''Ann'', Str ''Tech'', Str ''Acme'', Str ''x''] ::
            (string \<times> unit cell) list)"
  by (rule load_takes_first_match[where pre = "[[Str ''Bob'', Str ''Law'', Str ''Firm'', Str ''y'']]"
        and post = "[[Str ''Ann'', Str ''Art'', Str ''Studio'', Str ''z'']]"])
     (simp_all add: cell_at_def selectbox_def)

subsection \<open>The conversation\<close>

lemma run_start_over:
  assumes "dotenv_installed env" and "truthy (groq_api_key env)"
    and "clicked inp = Some Start_Over"
    and "fst (choose_profile env inp (boot env a)) = None"
  shows "halted (run env inp a) = Some Rerun
       \<and> session_state (app (run env inp a)) = Some initial_session"
proof -
  obtain w where w: "choose_profile env inp (boot env a) = (None, w)"
    using assms(4) by (cases "choose_profile env inp (boot env a)") simp
  show ?thesis
    using assms(1-3)
    by (simp add: run_def script_def seq_def w on_save_def on_generate_def on_send_def
        history_def on_start_over_def)
qed

text \<open>
  C9: a click on Start Over leaves the conversation as the one system message with the
  fixed prompt, and the generated-flag false, whatever the session state was.
\<close>

theorem start_over_resets:
  assumes "clicked inp = Some Start_Over"
  shows "messages (session (snd (on_start_over inp w))) =
           [\<lparr>role = ''system'',
             content = PStr (''You are an AI assistant generating personalized emails. '' @
                             ''Use the provided information to create customized email content.'')\<rparr>]
         \<and> \<not> email_generated (session (snd (on_start_over inp w)))"
  using assms
  by (simp add: on_start_over_def initial_session_def system_message_def system_prompt_def)

theorem start_over_resets_witness:
  "messages (session (snd (on_start_over (sample_inputs\<lparr>clicked := Some Start_Over\<rparr>) generated_world))) =
           [\<lparr>role = ''system'',
             content = PStr (''You are an AI assistant generating personalized emails. '' @
                             ''Use the provided information to create customized email content.'')\<rparr>]
         \<and> \<not> email_generated (session (snd (on_start_over (sample_inputs\<lparr>clicked := Some Start_Over\<rparr>) generated_world)))"
  by (rule start_over_resets) simp

lemma begins_append:
  "begins_with_one_system ms \<Longrightarrow>
   list_all (\<lambda>m. role m = ''user'' \<or> role m = ''assistant'') new \<Longrightarrow>
   begins_with_one_system (ms @ new)"
  by (cases ms) auto

lemma begins_initial: "begins_with_one_system (messages initial_session)"
  by (simp add: initial_session_def)

lemma begins_one_system:
  assumes "begins_with_one_system ms"
  shows "filter (\<lambda>m. role m = ''system'') ms = [system_message]"
proof (cases ms)
  case Nil
  with assms show ?thesis by simp
next
  case (Cons m rest)
  with assms have m: "m = system_message"
    and rest: "list_all (\<lambda>m. role m = ''user'' \<or> role m = ''assistant'') rest"
    by simp_all
  from rest have "filter (\<lambda>m. role m = ''system'') rest = []"
    by (induction rest) auto
  with Cons m show ?thesis by (simp add: system_message_def)
qed

lemma choose_profile_messages:
  "messages (session (snd (choose_profile env inp w))) = messages (session w)"
  by (simp add: choose_profile_def set_profile_def say_def split: choice.splits sum.splits)

lemma on_save_messages: "messages (session (snd (on_save inp w))) = messages (session w)"
  by (simp add: on_save_def set_profile_def say_def save_profile_def)

lemma on_generate_ok: "conversation_ok w \<Longrightarrow> conversation_ok (snd (on_generate env inp w))"
  by (auto simp add: conversation_ok_def on_generate_def get_llm_response_def append_message_def
      say_def call_def Let_def begins_append split: sum.splits)

lemma on_send_messages: "messages (session (snd (on_send env inp w))) = messages (session w)"
  by (simp add: on_send_def send_email_def say_def call_def Let_def split: sum.splits list.splits)

lemma history_messages: "messages (session (snd (history w))) = messages (session w)"
  by (simp add: history_def)

lemma on_start_over_ok: "conversation_ok w \<Longrightarrow> conversation_ok (snd (on_start_over inp w))"
  by (simp add: conversation_ok_def on_start_over_def begins_initial)

lemma script_ok:
  assumes "conversation_ok w"
  shows "conversation_ok (snd (script env inp w))"
  unfolding script_def
  by (intro seq_preserves[where P = conversation_ok] assms on_generate_ok on_start_over_ok)
     (simp_all add: conversation_ok_def choose_profile_messages on_save_messages
        on_send_messages history_messages)

lemma run_ok:
  assumes "\<And>s. session_state a = Some s \<Longrightarrow> begins_with_one_system (messages s)"
    and "session_state (app (run env inp a)) = Some s'"
  shows "begins_with_one_system (messages s')"
proof (cases "dotenv_installed env \<and> truthy (groq_api_key env)")
  case False
  then have "app (run env inp a) = a" by (auto simp add: run_def)
  with assms show ?thesis by simp
next
  case True
  have "conversation_ok (boot env a)"
    using assms(1)
    by (cases "session_state a") (simp_all add: conversation_ok_def boot_def begins_initial)
  then have "conversation_ok (snd (script env inp (boot env a)))" by (rule script_ok)
  moreover have "s' = session (snd (script env inp (boot env a)))"
    using assms(2) True by (simp add: run_def split: prod.splits)
  ultimately show ?thesis by (simp add: conversation_ok_def)
qed

lemma reachable_ok:
  "reachable a \<Longrightarrow> session_state a = Some s \<Longrightarrow> begins_with_one_system (messages s)"
proof (induction arbitrary: s rule: reachable.induct)
  case (start f)
  then show ?case by simp
next
  case (step a env inp)
  show ?case by (rule run_ok[OF step.IH step.prems])
qed

text \<open>
  C8: in every state the application can reach, whatever the user clicks and whatever the
  endpoints answer, the conversation of an initialised session state begins with the
  system message, every message after it is a user or an assistant message, and so the
  system message is its only message of role \<^verbatim>\<open>system\<close>.
\<close>

theorem conversation_begins_with_system:
  assumes "reachable a" and "session_state a = Some s"
  shows "begins_with_one_system (messages s)
       \<and> filter (\<lambda>m. role m = ''system'') (messages s) = [system_message]"
  using reachable_ok[OF assms] begins_one_system by blast

theorem conversation_begins_with_system_witness:
  "reachable (app (run (sample_env \<lparr>status_code = 200, json = Some hello_body\<rparr> (Inr PNone))
                    (sample_inputs\<lparr>clicked := Some Generate_Email\<rparr>)
                    \<lparr>session_state = None, profile_file = None\<rparr>))
   \<and> session_state (app (run (sample_env \<lparr>status_code = 200, json = Some hello_body\<rparr> (Inr PNone))
                    (sample_inputs\<lparr>clicked := Some Generate_Email\<rparr>)
                    \<lparr>session_state = None, profile_file = None\<rparr>))
       = Some (generated_session\<lparr>messages := [system_message,
                  \<lparr>role = ''user'', content = PStr (prompt (sample_inputs\<lparr>clicked := Some Generate_Email\<rparr>))\<rparr>,
                  \<lparr>role = ''assistant'', content = PStr ''Hello''\<rparr>]\<rparr>)
   \<and> begins_with_one_system [system_message,
                  \<lparr>role = ''user'', content = PStr (prompt (sample_inputs\<lparr>clicked := Some Generate_Email\<rparr>))\<rparr>,
                  \<lparr>role = ''assistant'', content = PStr ''Hello''\<rparr>]
   \<and> filter (\<lambda>m. role m = ''system'') [system_message,
                  \<lparr>role = ''user'', content = PStr (prompt (sample_inputs\<lparr>clicked := Some Generate_Email\<rparr>))\<rparr>,
                  \<lparr>role = ''assistant'', content = PStr ''Hello''\<rparr>] = [system_message]"
proof -
  let ?a = "app (run (sample_env \<lparr>status_code = 200, json = Some hello_body\<rparr> (Inr PNone))
                    (sample_inputs\<lparr>clicked := Some Generate_Email\<rparr>)
                    \<lparr>session_state = None, profile_file = None\<rparr>)"
  let ?s = "generated_session\<lparr>messages := [system_message,
                  \<lparr>role = ''user'', content = PStr (prompt (sample_inputs\<lparr>clicked := Some Generate_Email\<rparr>))\<rparr>,
                  \<lparr>role = ''assistant'', content = PStr ''Hello''\<rparr>]\<rparr>"
  have r: "reachable ?a"
    by (rule reachable.step[OF reachable.start])
  have s: "session_state ?a = Some ?s"
    by (simp add: run_def boot_def script_def seq_def choose_profile_def set_profile_def
        on_save_def on_generate_def get_llm_response_def response_content_def hello_body_def
        append_message_def on_send_def history_def on_start_over_def
        say_def call_def sample_env_def sample_inputs_def generated_session_def
        initial_session_def Let_def)
  from conversation_begins_with_system[OF r s] r s show ?thesis by simp
qed

end
